theory Spec2Isabelle
  imports Main "HOL-Library.Word"
begin

section \<open>The JNI bridge of TalkToWhisper (jni.c)\<close>

text \<open>
  The file \<^verbatim>\<open>app/src/main/jni/whisper/jni.c\<close> is glue between a Kotlin class and the
  whisper.cpp library. The library is third-party code that is not part of the
  repository, so every routine of it that the bridge calls is a parameter of the model
  (a field of the record \<open>whisper_api\<close>), acting on an engine state of an arbitrary
  type \<open>'e\<close>. The Java virtual machine is the second environment: its heap of float
  arrays, its native buffers and its log are fields of the record \<open>world\<close>, and the
  places where the JNI specification lets a call fail by returning \<^verbatim>\<open>NULL\<close> are the
  fields of the record \<open>jvm\<close>.
\<close>

subsection \<open>JNI types and constants\<close>

type_synonym jlong = "64 word"
type_synonym jint = "32 word"
type_synonym jsize = "32 word"
type_synonym jboolean = "8 word"

text \<open>A \<^verbatim>\<open>jfloat\<close> is the 32-bit pattern of an IEEE single; the bridge only copies them.\<close>

type_synonym jfloat = "32 word"

text \<open>
  A float array is a reference into the heap of the world. A C pointer that may be
  \<^verbatim>\<open>NULL\<close> is an option.
\<close>

type_synonym jfloatArray = nat

definition JNI_FALSE :: jboolean where
  "JNI_FALSE = 0"

definition JNI_TRUE :: jboolean where
  "JNI_TRUE = 1"

definition JNI_COMMIT :: jint where
  "JNI_COMMIT = 1"

definition JNI_ABORT :: jint where
  "JNI_ABORT = 2"

text \<open>How the JVM hands a Kotlin \<^verbatim>\<open>Boolean\<close> to native code.\<close>

definition jboolean_of :: "bool \<Rightarrow> jboolean" where
  "jboolean_of b = (if b then JNI_TRUE else JNI_FALSE)"

text \<open>
  A \<^verbatim>\<open>struct whisper_context *\<close> travels through Kotlin as a \<^verbatim>\<open>jlong\<close>; the casts
  in both directions keep the bits, and \<^verbatim>\<open>NULL\<close> is 0.
\<close>

definition NULL_context :: jlong where
  "NULL_context = 0"

subsection \<open>The C library: strcmp\<close>

text \<open>
  \<^verbatim>\<open>strcmp\<close> on two NUL-terminated strings. The end of the list is the terminator; a
  NUL byte inside the list terminates the string as well. The result is the difference of
  the first two bytes that differ, read as unsigned.
\<close>

fun strcmp :: "string \<Rightarrow> string \<Rightarrow> int" where
  "strcmp [] [] = 0"
| "strcmp [] (b # t) = - of_char b"
| "strcmp (a # s) [] = of_char a"
| "strcmp (a # s) (b # t) =
     (if a \<noteq> b then of_char a - of_char b
      else if a = CHR 0x00 then 0
      else strcmp s t)"

text \<open>The string a C routine reads behind a \<^verbatim>\<open>const char *\<close>: the bytes before the first NUL.\<close>

definition c_str :: "string \<Rightarrow> string" where
  "c_str s = takeWhile (\<lambda>c. c \<noteq> CHR 0x00) s"

subsection \<open>Java strings\<close>

text \<open>
  JNI exchanges strings in modified UTF-8, which encodes the character U+0000 in two
  bytes, so the bytes of a Java string never contain NUL. A Java string is represented by
  these bytes: \<open>utf_bytes\<close> reads them, \<open>jstring_of\<close> builds the Java string from the
  C string behind a pointer.
\<close>

typedef jstring = "{s :: string. CHR 0x00 \<notin> set s}"
  morphisms utf_bytes Abs_jstring
  by (rule exI [of _ "[]"]) simp

setup_lifting type_definition_jstring

lift_definition jstring_of :: "string \<Rightarrow> jstring" is c_str
  by (auto simp: c_str_def dest: set_takeWhileD)

subsection \<open>The Android log\<close>

datatype log_priority = ANDROID_LOG_INFO | ANDROID_LOG_WARN

datatype log_arg = Arg_s "string option" | Arg_d int

text \<open>A line of the log: priority, tag, format string and the arguments of the format.\<close>

datatype log_line = Log_line log_priority string string "log_arg list"

definition TAG :: string where
  "TAG = ''WhisperJNI''"

subsection \<open>The parameters of a run\<close>

datatype whisper_sampling_strategy = WHISPER_SAMPLING_GREEDY | WHISPER_SAMPLING_BEAM_SEARCH

text \<open>
  \<^verbatim>\<open>struct whisper_full_params\<close> is declared in \<^verbatim>\<open>whisper.h\<close>. The fields below are the
  ones the bridge assigns; every other field of the struct (the sampling strategy that
  \<^verbatim>\<open>whisper_full_default_params\<close> was asked for among them) is in \<open>other_fields\<close>.
\<close>

record 'p whisper_full_params =
  print_realtime :: bool
  print_progress :: bool
  print_timestamps :: bool
  print_special :: bool
  no_timestamps :: bool
  translate :: bool
  language :: "string option"
  n_threads :: "32 word"
  offset_ms :: "32 word"
  no_context :: bool
  single_segment :: bool
  other_fields :: 'p

subsection \<open>The engine\<close>

text \<open>
  The routines of whisper.cpp that the bridge calls, over an engine state \<open>'e\<close>. A
  routine that takes a \<^verbatim>\<open>const\<close> pointer gets the value behind it. \<open>'c\<close> is
  \<^verbatim>\<open>struct whisper_context_params\<close>.
\<close>

record ('e, 'c, 'p) whisper_api =
  whisper_context_default_params :: 'c
  whisper_init_from_file_with_params :: "string option \<Rightarrow> 'c \<Rightarrow> 'e \<Rightarrow> jlong \<times> 'e"
  whisper_free :: "jlong \<Rightarrow> 'e \<Rightarrow> 'e"
  whisper_full_default_params :: "whisper_sampling_strategy \<Rightarrow> 'p whisper_full_params"
  whisper_reset_timings :: "jlong \<Rightarrow> 'e \<Rightarrow> 'e"
  whisper_full ::
    "jlong \<Rightarrow> 'p whisper_full_params \<Rightarrow> jfloat list option \<Rightarrow> 32 word \<Rightarrow> 'e \<Rightarrow> 32 word \<times> 'e"
  whisper_print_timings :: "jlong \<Rightarrow> 'e \<Rightarrow> 'e"
  whisper_full_n_segments :: "jlong \<Rightarrow> 'e \<Rightarrow> 32 word"
  whisper_full_get_segment_text :: "jlong \<Rightarrow> 32 word \<Rightarrow> 'e \<Rightarrow> string option"
  whisper_full_get_segment_t0 :: "jlong \<Rightarrow> 32 word \<Rightarrow> 'e \<Rightarrow> 64 word"
  whisper_full_get_segment_t1 :: "jlong \<Rightarrow> 32 word \<Rightarrow> 'e \<Rightarrow> 64 word"
  whisper_print_system_info :: "'e \<Rightarrow> string option"

text \<open>The calls into the engine that can change its state, as the bridge makes them.\<close>

datatype ('c, 'p) engine_call =
    Call_init_from_file "string option" 'c
  | Call_free jlong
  | Call_reset_timings jlong
  | Call_full jlong "'p whisper_full_params" "jfloat list option" "32 word"
  | Call_print_timings jlong

subsection \<open>The world\<close>

text \<open>
  \<open>engine_calls\<close> is the trace of the calls made so far. \<open>float_arrays\<close> is the Java
  heap: a \<^verbatim>\<open>jfloatArray\<close> that the JVM passes to a native method refers to a live array.
  \<open>live_utf_chars\<close> and \<open>live_array_elems\<close> count the native buffers that
  \<^verbatim>\<open>GetStringUTFChars\<close> and \<^verbatim>\<open>GetFloatArrayElements\<close> have handed out and that are not
  released yet.
\<close>

record ('e, 'c, 'p) world =
  engine_state :: 'e
  engine_calls :: "('c, 'p) engine_call list"
  logcat :: "log_line list"
  float_arrays :: "jfloatArray \<Rightarrow> jfloat list"
  live_utf_chars :: nat
  live_array_elems :: nat

text \<open>Whether the JVM has the memory for a native buffer or a new string.\<close>

record jvm =
  utf_chars_ok :: bool
  array_elems_ok :: bool
  new_string_ok :: bool

definition LOGI :: "string \<Rightarrow> log_arg list \<Rightarrow> ('e, 'c, 'p) world \<Rightarrow> ('e, 'c, 'p) world" where
  "LOGI fmt args w = w\<lparr>logcat := logcat w @ [Log_line ANDROID_LOG_INFO TAG fmt args]\<rparr>"

definition LOGW :: "string \<Rightarrow> log_arg list \<Rightarrow> ('e, 'c, 'p) world \<Rightarrow> ('e, 'c, 'p) world" where
  "LOGW fmt args w = w\<lparr>logcat := logcat w @ [Log_line ANDROID_LOG_WARN TAG fmt args]\<rparr>"

subsection \<open>The JNI functions the bridge uses\<close>

definition GetStringUTFChars ::
  "jvm \<Rightarrow> jstring \<Rightarrow> ('e, 'c, 'p) world \<Rightarrow> string option \<times> ('e, 'c, 'p) world" where
  "GetStringUTFChars J str w =
     (if utf_chars_ok J
      then (Some (utf_bytes str), w\<lparr>live_utf_chars := live_utf_chars w + 1\<rparr>)
      else (None, w))"

definition ReleaseStringUTFChars ::
  "jstring \<Rightarrow> string option \<Rightarrow> ('e, 'c, 'p) world \<Rightarrow> ('e, 'c, 'p) world" where
  "ReleaseStringUTFChars str chars w =
     (case chars of
        None \<Rightarrow> w
      | Some c \<Rightarrow> w\<lparr>live_utf_chars := live_utf_chars w - 1\<rparr>)"

definition GetFloatArrayElements ::
  "jvm \<Rightarrow> jfloatArray \<Rightarrow> ('e, 'c, 'p) world \<Rightarrow> jfloat list option \<times> ('e, 'c, 'p) world" where
  "GetFloatArrayElements J arr w =
     (if array_elems_ok J
      then (Some (float_arrays w arr), w\<lparr>live_array_elems := live_array_elems w + 1\<rparr>)
      else (None, w))"

definition GetArrayLength :: "jfloatArray \<Rightarrow> ('e, 'c, 'p) world \<Rightarrow> jsize" where
  "GetArrayLength arr w = of_nat (length (float_arrays w arr))"

text \<open>
  Mode 0 copies the buffer back and frees it, \<open>JNI_COMMIT\<close> copies it back and keeps it,
  \<open>JNI_ABORT\<close> frees it and copies nothing back.
\<close>

definition ReleaseFloatArrayElements ::
  "jfloatArray \<Rightarrow> jfloat list option \<Rightarrow> jint \<Rightarrow> ('e, 'c, 'p) world \<Rightarrow> ('e, 'c, 'p) world" where
  "ReleaseFloatArrayElements arr elems mode w =
     (case elems of
        None \<Rightarrow> w
      | Some buf \<Rightarrow>
          w\<lparr>float_arrays :=
               (if mode = JNI_ABORT then float_arrays w else (float_arrays w)(arr := buf)),
            live_array_elems :=
               (if mode = JNI_COMMIT then live_array_elems w else live_array_elems w - 1)\<rparr>)"

definition NewStringUTF :: "jvm \<Rightarrow> string option \<Rightarrow> jstring option" where
  "NewStringUTF J bytes =
     (case bytes of
        None \<Rightarrow> None
      | Some s \<Rightarrow> if new_string_ok J then Some (jstring_of s) else None)"

subsection \<open>Calling the engine\<close>

definition do_whisper_init_from_file_with_params ::
  "('e, 'c, 'p) whisper_api \<Rightarrow> string option \<Rightarrow> 'c \<Rightarrow> ('e, 'c, 'p) world
    \<Rightarrow> jlong \<times> ('e, 'c, 'p) world" where
  "do_whisper_init_from_file_with_params E path cparams w =
     (let (ctx, e) = whisper_init_from_file_with_params E path cparams (engine_state w)
      in (ctx, w\<lparr>engine_state := e,
                 engine_calls := engine_calls w @ [Call_init_from_file path cparams]\<rparr>))"

definition do_whisper_free ::
  "('e, 'c, 'p) whisper_api \<Rightarrow> jlong \<Rightarrow> ('e, 'c, 'p) world \<Rightarrow> ('e, 'c, 'p) world" where
  "do_whisper_free E ctx w =
     w\<lparr>engine_state := whisper_free E ctx (engine_state w),
       engine_calls := engine_calls w @ [Call_free ctx]\<rparr>"

definition do_whisper_reset_timings ::
  "('e, 'c, 'p) whisper_api \<Rightarrow> jlong \<Rightarrow> ('e, 'c, 'p) world \<Rightarrow> ('e, 'c, 'p) world" where
  "do_whisper_reset_timings E ctx w =
     w\<lparr>engine_state := whisper_reset_timings E ctx (engine_state w),
       engine_calls := engine_calls w @ [Call_reset_timings ctx]\<rparr>"

definition do_whisper_full ::
  "('e, 'c, 'p) whisper_api \<Rightarrow> jlong \<Rightarrow> 'p whisper_full_params \<Rightarrow> jfloat list option \<Rightarrow> 32 word
    \<Rightarrow> ('e, 'c, 'p) world \<Rightarrow> 32 word \<times> ('e, 'c, 'p) world" where
  "do_whisper_full E ctx params samples n_samples w =
     (let (rc, e) = whisper_full E ctx params samples n_samples (engine_state w)
      in (rc, w\<lparr>engine_state := e,
                engine_calls := engine_calls w @ [Call_full ctx params samples n_samples]\<rparr>))"

definition do_whisper_print_timings ::
  "('e, 'c, 'p) whisper_api \<Rightarrow> jlong \<Rightarrow> ('e, 'c, 'p) world \<Rightarrow> ('e, 'c, 'p) world" where
  "do_whisper_print_timings E ctx w =
     w\<lparr>engine_state := whisper_print_timings E ctx (engine_state w),
       engine_calls := engine_calls w @ [Call_print_timings ctx]\<rparr>"

subsection \<open>initContext\<close>

definition initContext ::
  "('e, 'c, 'p) whisper_api \<Rightarrow> jvm \<Rightarrow> jstring \<Rightarrow> ('e, 'c, 'p) world
    \<Rightarrow> jlong \<times> ('e, 'c, 'p) world" where
  "initContext E J model_path_str w =
     (let (model_path_chars, w1) = GetStringUTFChars J model_path_str w;
          w2 = LOGI ''Loading whisper.cpp model from: %s'' [Arg_s model_path_chars] w1;
          (context, w3) =
             do_whisper_init_from_file_with_params E model_path_chars
               (whisper_context_default_params E) w2;
          w4 = ReleaseStringUTFChars model_path_str model_path_chars w3;
          w5 = (if context = NULL_context
                then LOGW ''Failed to initialise whisper context'' [] w4
                else LOGI ''Whisper context created successfully'' [] w4)
      in (context, w5))"

subsection \<open>freeContext\<close>

definition freeContext ::
  "('e, 'c, 'p) whisper_api \<Rightarrow> jlong \<Rightarrow> ('e, 'c, 'p) world \<Rightarrow> ('e, 'c, 'p) world" where
  "freeContext E context_ptr w =
     (let context = context_ptr
      in if context \<noteq> NULL_context
         then LOGI ''Whisper context freed'' [] (do_whisper_free E context w)
         else w)"

subsection \<open>fullTranscribe\<close>

text \<open>Lines 79 to 83: the language handed to the engine, \<open>None\<close> for auto-detection.\<close>

definition lang_param_of :: "string option \<Rightarrow> string option" where
  "lang_param_of lang_chars =
     (case lang_chars of
        None \<Rightarrow> None
      | Some chars \<Rightarrow> if strcmp chars ''auto'' \<noteq> 0 then Some chars else None)"

text \<open>
  Lines 93 to 104: the parameter struct of the run. The argument \<^verbatim>\<open>translate\<close> of
  the source is \<open>translate_arg\<close> here, \<open>translate\<close> being the field of the struct.
\<close>

definition transcribe_params ::
  "('e, 'c, 'p) whisper_api \<Rightarrow> jint \<Rightarrow> string option \<Rightarrow> jboolean \<Rightarrow> 'p whisper_full_params" where
  "transcribe_params E num_threads lang_param translate_arg =
     (whisper_full_default_params E WHISPER_SAMPLING_GREEDY)
       \<lparr>print_realtime := False,
        print_progress := False,
        print_timestamps := False,
        print_special := False,
        no_timestamps := True,
        translate := (translate_arg = JNI_TRUE),
        language := lang_param,
        n_threads := num_threads,
        offset_ms := 0,
        no_context := True,
        single_segment := True\<rparr>"

definition fullTranscribe ::
  "('e, 'c, 'p) whisper_api \<Rightarrow> jvm \<Rightarrow> jlong \<Rightarrow> jint \<Rightarrow> jfloatArray \<Rightarrow> jstring \<Rightarrow> jboolean
    \<Rightarrow> ('e, 'c, 'p) world \<Rightarrow> ('e, 'c, 'p) world" where
  "fullTranscribe E J context_ptr num_threads audio_data language_str translate_arg w =
     (let context = context_ptr;
          (audio_data_arr, w1) = GetFloatArrayElements J audio_data w;
          audio_data_length = GetArrayLength audio_data w1;
          (lang_chars, w2) = GetStringUTFChars J language_str w1;
          lang_param = lang_param_of lang_chars;
          params = transcribe_params E num_threads lang_param translate_arg;
          w3 = do_whisper_reset_timings E context w2;
          w4 = LOGI ''Running whisper_full with %d threads on %d samples, lang=%s, translate=%d''
                 [Arg_d (sint num_threads), Arg_d (sint audio_data_length),
                  Arg_s (case lang_param of Some l \<Rightarrow> Some l | None \<Rightarrow> Some ''auto''),
                  Arg_d (if translate params then 1 else 0)] w3;
          (rc, w5) = do_whisper_full E context params audio_data_arr audio_data_length w4;
          w6 = (if rc \<noteq> 0 then LOGW ''whisper_full failed'' [] w5
                else do_whisper_print_timings E context w5);
          w7 = ReleaseStringUTFChars language_str lang_chars w6
      in ReleaseFloatArrayElements audio_data audio_data_arr JNI_ABORT w7)"

subsection \<open>The accessors\<close>

definition getTextSegmentCount ::
  "('e, 'c, 'p) whisper_api \<Rightarrow> jlong \<Rightarrow> ('e, 'c, 'p) world \<Rightarrow> jint" where
  "getTextSegmentCount E context_ptr w = whisper_full_n_segments E context_ptr (engine_state w)"

definition getTextSegment ::
  "('e, 'c, 'p) whisper_api \<Rightarrow> jvm \<Rightarrow> jlong \<Rightarrow> jint \<Rightarrow> ('e, 'c, 'p) world \<Rightarrow> jstring option" where
  "getTextSegment E J context_ptr index w =
     (let text = whisper_full_get_segment_text E context_ptr index (engine_state w)
      in NewStringUTF J text)"

definition getTextSegmentT0 ::
  "('e, 'c, 'p) whisper_api \<Rightarrow> jlong \<Rightarrow> jint \<Rightarrow> ('e, 'c, 'p) world \<Rightarrow> jlong" where
  "getTextSegmentT0 E context_ptr index w =
     whisper_full_get_segment_t0 E context_ptr index (engine_state w)"

definition getTextSegmentT1 ::
  "('e, 'c, 'p) whisper_api \<Rightarrow> jlong \<Rightarrow> jint \<Rightarrow> ('e, 'c, 'p) world \<Rightarrow> jlong" where
  "getTextSegmentT1 E context_ptr index w =
     whisper_full_get_segment_t1 E context_ptr index (engine_state w)"

text \<open>
  \<^verbatim>\<open>whisper_print_system_info\<close> takes no argument; what it reads of the engine's state is
  the engine's business, so the model hands it the whole state.
\<close>

definition getSystemInfo ::
  "('e, 'c, 'p) whisper_api \<Rightarrow> jvm \<Rightarrow> ('e, 'c, 'p) world \<Rightarrow> jstring option" where
  "getSystemInfo E J w =
     (let sysinfo = whisper_print_system_info E (engine_state w) in NewStringUTF J sysinfo)"

subsection \<open>Reading the trace\<close>

text \<open>The engine calls that were added between two worlds.\<close>

definition new_calls ::
  "('e, 'c, 'p) world \<Rightarrow> ('e, 'c, 'p) world \<Rightarrow> ('c, 'p) engine_call list" where
  "new_calls w w' = drop (length (engine_calls w)) (engine_calls w')"

text \<open>The parameter structs of the runs in a trace, and the contexts it frees.\<close>

fun full_params_of :: "('c, 'p) engine_call list \<Rightarrow> 'p whisper_full_params list" where
  "full_params_of [] = []"
| "full_params_of (Call_full ctx p samples n # cs) = p # full_params_of cs"
| "full_params_of (c # cs) = full_params_of cs"

fun freed_by :: "('c, 'p) engine_call list \<Rightarrow> jlong list" where
  "freed_by [] = []"
| "freed_by (Call_free ctx # cs) = ctx # freed_by cs"
| "freed_by (c # cs) = freed_by cs"

subsection \<open>What a caller observes of the segments\<close>

text \<open>The indices from 0 up to, and without, a count.\<close>

definition segment_indices :: "jint \<Rightarrow> jint list" where
  "segment_indices n = map of_nat [0 ..< nat (sint n)]"

text \<open>
  The rows a caller reads through \<open>getTextSegmentCount\<close>, \<open>getTextSegment\<close>,
  \<open>getTextSegmentT0\<close> and \<open>getTextSegmentT1\<close>.
\<close>

definition observed_segments ::
  "('e, 'c, 'p) whisper_api \<Rightarrow> jvm \<Rightarrow> jlong \<Rightarrow> ('e, 'c, 'p) world
    \<Rightarrow> (jstring option \<times> jlong \<times> jlong) list" where
  "observed_segments E J context_ptr w =
     map (\<lambda>i. (getTextSegment E J context_ptr i w,
               getTextSegmentT0 E context_ptr i w,
               getTextSegmentT1 E context_ptr i w))
       (segment_indices (getTextSegmentCount E context_ptr w))"

text \<open>
  Modelled from the spec: \<^verbatim>\<open>whisper_full_get_segment_t0\<close> and
  \<^verbatim>\<open>whisper_full_get_segment_t1\<close> belong to whisper.cpp, which is not under src. The
  spec says of their values that they are centisecond offsets, monotonically
  non-decreasing across increasing index in well-formed output: timestamps \<open>t0\<close> and
  \<open>t1\<close> of \<open>n\<close> segments are well formed when every segment starts no later than it
  ends and no later than the next one starts. The values are signed 64-bit integers.
\<close>

definition timestamps_well_formed :: "(jint \<Rightarrow> jlong) \<Rightarrow> (jint \<Rightarrow> jlong) \<Rightarrow> jint \<Rightarrow> bool" where
  "timestamps_well_formed t0 t1 n =
     (\<forall>i \<in> set (segment_indices n).
        sint (t0 i) \<le> sint (t1 i) \<and>
        (sint i + 1 < sint n \<longrightarrow> sint (t0 i) \<le> sint (t0 (i + 1))))"

text \<open>
  Modelled from the spec: \<^verbatim>\<open>whisper_full\<close> and \<^verbatim>\<open>whisper_print_timings\<close> belong to
  whisper.cpp, which is not under src. The output of the engine is well formed: a run
  that \<^verbatim>\<open>whisper_full\<close> reports as successful leaves well-formed timestamps for its
  context, whatever the state before and the arguments were, and
  \<^verbatim>\<open>whisper_print_timings\<close>, which prints, changes neither the count nor a timestamp.
\<close>

definition engine_output_well_formed :: "('e, 'c, 'p) whisper_api \<Rightarrow> bool" where
  "engine_output_well_formed E =
     ((\<forall>ctx p samples n e.
         fst (whisper_full E ctx p samples n e) = 0 \<longrightarrow>
         timestamps_well_formed
           (\<lambda>i. whisper_full_get_segment_t0 E ctx i (snd (whisper_full E ctx p samples n e)))
           (\<lambda>i. whisper_full_get_segment_t1 E ctx i (snd (whisper_full E ctx p samples n e)))
           (whisper_full_n_segments E ctx (snd (whisper_full E ctx p samples n e)))) \<and>
      (\<forall>ctx e.
         whisper_full_n_segments E ctx (whisper_print_timings E ctx e) =
           whisper_full_n_segments E ctx e \<and>
         (\<forall>i. whisper_full_get_segment_t0 E ctx i (whisper_print_timings E ctx e) =
                whisper_full_get_segment_t0 E ctx i e \<and>
              whisper_full_get_segment_t1 E ctx i (whisper_print_timings E ctx e) =
                whisper_full_get_segment_t1 E ctx i e)))"

text \<open>
  Modelled from the spec: \<^verbatim>\<open>whisper_print_system_info\<close> belongs to whisper.cpp, which
  is not under src. The spec says of its result that it is a static, session-independent
  description of the build that is not empty: the engine returns the C string \<open>info\<close>
  in every state, and \<open>info\<close> has a first byte.
\<close>

definition static_system_info :: "('e, 'c, 'p) whisper_api \<Rightarrow> string \<Rightarrow> bool" where
  "static_system_info E info =
     ((\<forall>e. whisper_print_system_info E e = Some info) \<and> c_str info \<noteq> [])"

subsection \<open>The values of the local variables of fullTranscribe\<close>

text \<open>
  What \<^verbatim>\<open>audio_data_arr\<close>, \<^verbatim>\<open>lang_chars\<close>, \<^verbatim>\<open>params\<close> and the result of
  \<^verbatim>\<open>whisper_full\<close> on line 113 are in a call of \<open>fullTranscribe\<close>, as functions of its
  arguments. The lemma \<open>fullTranscribe_unfold\<close> below ties them to \<open>fullTranscribe\<close>.
\<close>

definition run_samples :: "jvm \<Rightarrow> jfloatArray \<Rightarrow> ('e, 'c, 'p) world \<Rightarrow> jfloat list option" where
  "run_samples J audio_data w = fst (GetFloatArrayElements J audio_data w)"

definition run_lang_chars :: "jvm \<Rightarrow> jstring \<Rightarrow> string option" where
  "run_lang_chars J language_str =
     (if utf_chars_ok J then Some (utf_bytes language_str) else None)"

definition run_params ::
  "('e, 'c, 'p) whisper_api \<Rightarrow> jvm \<Rightarrow> jint \<Rightarrow> jstring \<Rightarrow> jboolean \<Rightarrow> 'p whisper_full_params" where
  "run_params E J num_threads language_str translate_arg =
     transcribe_params E num_threads (lang_param_of (run_lang_chars J language_str)) translate_arg"

definition run_result ::
  "('e, 'c, 'p) whisper_api \<Rightarrow> jvm \<Rightarrow> jlong \<Rightarrow> jint \<Rightarrow> jfloatArray \<Rightarrow> jstring \<Rightarrow> jboolean
    \<Rightarrow> ('e, 'c, 'p) world \<Rightarrow> 32 word \<times> 'e" where
  "run_result E J context_ptr num_threads audio_data language_str translate_arg w =
     whisper_full E context_ptr (run_params E J num_threads language_str translate_arg)
       (run_samples J audio_data w) (GetArrayLength audio_data w)
       (whisper_reset_timings E context_ptr (engine_state w))"

subsection \<open>An engine to run the bridge on\<close>

text \<open>
  Modelled from the spec: whisper.cpp is not under src. This is a small engine for
  evaluating the bridge on concrete inputs, which does what the spec says of the engine.
  Loading fails when the file is not a recognized model (it knows one model file). A
  session holds the segments of a run until the next run, and each run discards the
  prior results: the table of segments is emptied when a run starts. A language code
  that is not recognized is an error, reported by a status other than 0. A run in a
  recognized language produces one segment that spans the samples, a run with
  auto-detection two segments of a second and a half each. The description of the system
  is static. Its \<open>other_fields\<close> is the sampling strategy.
\<close>

record toy_state =
  toy_contexts :: "jlong list"
  toy_segments :: "(string \<times> 64 word \<times> 64 word) list"

definition toy_known_language :: "string \<Rightarrow> bool" where
  "toy_known_language l = (l = ''en'' \<or> l = ''es'' \<or> l = ''de'')"

definition toy_default_params ::
  "whisper_sampling_strategy \<Rightarrow> whisper_sampling_strategy whisper_full_params" where
  "toy_default_params s =
     \<lparr>print_realtime = False, print_progress = True, print_timestamps = True,
      print_special = False, no_timestamps = False, translate = False,
      language = Some ''en'', n_threads = 4, offset_ms = 0, no_context = True,
      single_segment = False, other_fields = s\<rparr>"

definition toy_init :: "string option \<Rightarrow> unit \<Rightarrow> toy_state \<Rightarrow> jlong \<times> toy_state" where
  "toy_init path cparams e =
     (case path of
        None \<Rightarrow> (0, e)
      | Some p \<Rightarrow>
          if c_str p = ''ggml-tiny.bin''
          then (let h = 4096 + 16 * of_nat (length (toy_contexts e))
                in (h, e\<lparr>toy_contexts := h # toy_contexts e\<rparr>))
          else (0, e))"

definition toy_free :: "jlong \<Rightarrow> toy_state \<Rightarrow> toy_state" where
  "toy_free ctx e = e\<lparr>toy_contexts := removeAll ctx (toy_contexts e)\<rparr>"

definition toy_full ::
  "jlong \<Rightarrow> whisper_sampling_strategy whisper_full_params \<Rightarrow> jfloat list option \<Rightarrow> 32 word
    \<Rightarrow> toy_state \<Rightarrow> 32 word \<times> toy_state" where
  "toy_full ctx p samples n_samples e =
     (let e0 = e\<lparr>toy_segments := []\<rparr>
      in case language p of
           None \<Rightarrow> (0, e0\<lparr>toy_segments := [(''hola'', 0, 150), (''mundo'', 150, 300)]\<rparr>)
         | Some l \<Rightarrow>
             if toy_known_language l
             then (0, e0\<lparr>toy_segments := [(''hello'', 0, ucast n_samples)]\<rparr>)
             else (- 3, e0))"

definition toy_engine :: "(toy_state, unit, whisper_sampling_strategy) whisper_api" where
  "toy_engine =
     \<lparr>whisper_context_default_params = (),
      whisper_init_from_file_with_params = toy_init,
      whisper_free = toy_free,
      whisper_full_default_params = toy_default_params,
      whisper_reset_timings = (\<lambda>ctx e. e),
      whisper_full = toy_full,
      whisper_print_timings = (\<lambda>ctx e. e),
      whisper_full_n_segments = (\<lambda>ctx e. of_nat (length (toy_segments e))),
      whisper_full_get_segment_text =
        (\<lambda>ctx i e. if unat i < length (toy_segments e)
                   then Some (fst (toy_segments e ! unat i)) else None),
      whisper_full_get_segment_t0 =
        (\<lambda>ctx i e. if unat i < length (toy_segments e)
                   then fst (snd (toy_segments e ! unat i)) else 0),
      whisper_full_get_segment_t1 =
        (\<lambda>ctx i e. if unat i < length (toy_segments e)
                   then snd (snd (toy_segments e ! unat i)) else 0),
      whisper_print_system_info = (\<lambda>e. Some ''NEON = 1 | ARM_FMA = 1 | OPENMP = 1'')\<rparr>"

text \<open>
  A JVM with memory to spare, one that cannot allocate, and one that fails on
  \<^verbatim>\<open>GetStringUTFChars\<close> only.
\<close>

definition jvm_ok :: jvm where
  "jvm_ok = \<lparr>utf_chars_ok = True, array_elems_ok = True, new_string_ok = True\<rparr>"

definition jvm_oom :: jvm where
  "jvm_oom = \<lparr>utf_chars_ok = False, array_elems_ok = False, new_string_ok = False\<rparr>"

definition jvm_no_utf :: jvm where
  "jvm_no_utf = \<lparr>utf_chars_ok = False, array_elems_ok = True, new_string_ok = True\<rparr>"

text \<open>A world with nothing loaded, whose float array 7 holds three samples.\<close>

definition toy_world :: "(toy_state, unit, whisper_sampling_strategy) world" where
  "toy_world =
     \<lparr>engine_state = \<lparr>toy_contexts = [], toy_segments = []\<rparr>,
      engine_calls = [],
      logcat = [],
      float_arrays = (\<lambda>r. if r = 7 then [0x3DCCCCCD, 0, 0xBDCCCCCD] else []),
      live_utf_chars = 0,
      live_array_elems = 0\<rparr>"

text \<open>
  The world after the model was loaded, after a first run in English went through, and
  after a first run with auto-detection went through.
\<close>

definition toy_world_loaded :: "(toy_state, unit, whisper_sampling_strategy) world" where
  "toy_world_loaded =
     snd (initContext toy_engine jvm_ok (jstring_of ''ggml-tiny.bin'') toy_world)"

definition toy_world_after_run :: "(toy_state, unit, whisper_sampling_strategy) world" where
  "toy_world_after_run =
     fullTranscribe toy_engine jvm_ok 4096 4 7 (jstring_of ''en'') JNI_FALSE toy_world_loaded"

definition toy_world_after_auto_run :: "(toy_state, unit, whisper_sampling_strategy) world" where
  "toy_world_after_auto_run =
     fullTranscribe toy_engine jvm_ok 4096 4 7 (jstring_of ''auto'') JNI_FALSE toy_world_loaded"

section \<open>Basic facts\<close>

lemma toy_engine_fields:
  "whisper_context_default_params toy_engine = ()"
  "whisper_init_from_file_with_params toy_engine = toy_init"
  "whisper_free toy_engine = toy_free"
  "whisper_full_default_params toy_engine = toy_default_params"
  "whisper_reset_timings toy_engine ctx e = e"
  "whisper_full toy_engine = toy_full"
  "whisper_print_timings toy_engine ctx e = e"
  "whisper_full_n_segments toy_engine ctx e = of_nat (length (toy_segments e))"
  "whisper_full_get_segment_text toy_engine ctx i e =
     (if unat i < length (toy_segments e) then Some (fst (toy_segments e ! unat i)) else None)"
  "whisper_full_get_segment_t0 toy_engine ctx i e =
     (if unat i < length (toy_segments e) then fst (snd (toy_segments e ! unat i)) else 0)"
  "whisper_full_get_segment_t1 toy_engine ctx i e =
     (if unat i < length (toy_segments e) then snd (snd (toy_segments e ! unat i)) else 0)"
  "whisper_print_system_info toy_engine e = Some ''NEON = 1 | ARM_FMA = 1 | OPENMP = 1''"
  by (simp_all add: toy_engine_def)

lemma jvm_fields:
  "utf_chars_ok jvm_ok" "array_elems_ok jvm_ok" "new_string_ok jvm_ok"
  "\<not> utf_chars_ok jvm_oom" "\<not> array_elems_ok jvm_oom" "\<not> new_string_ok jvm_oom"
  "\<not> utf_chars_ok jvm_no_utf" "array_elems_ok jvm_no_utf" "new_string_ok jvm_no_utf"
  by (simp_all add: jvm_ok_def jvm_oom_def jvm_no_utf_def)

lemmas bridge_defs =
  GetStringUTFChars_def ReleaseStringUTFChars_def GetFloatArrayElements_def GetArrayLength_def
  ReleaseFloatArrayElements_def JNI_ABORT_def JNI_COMMIT_def LOGI_def LOGW_def
  do_whisper_init_from_file_with_params_def do_whisper_free_def do_whisper_reset_timings_def
  do_whisper_full_def do_whisper_print_timings_def

lemmas toy_defs =
  toy_engine_fields toy_full_def toy_init_def toy_free_def toy_default_params_def
  toy_known_language_def jvm_fields toy_world_def

lemma of_char_eq_0_iff: "(of_char c :: int) = 0 \<longleftrightarrow> c = CHR 0x00"
proof -
  have "(of_char c :: int) = of_char (CHR 0x00) \<longleftrightarrow> c = CHR 0x00"
    by (simp only: of_char_eq_iff)
  then show ?thesis by simp
qed

lemma strcmp_eq_0_iff: "strcmp a b = 0 \<longleftrightarrow> c_str a = c_str b"
  by (induction a b rule: strcmp.induct) (auto simp: c_str_def of_char_eq_0_iff)

lemma c_str_id: "CHR 0x00 \<notin> set s \<Longrightarrow> c_str s = s"
  by (induction s) (auto simp: c_str_def)

lemma c_str_utf_bytes: "c_str (utf_bytes str) = utf_bytes str"
  using utf_bytes [of str] by (simp add: c_str_id)

lemma utf_bytes_jstring_of: "utf_bytes (jstring_of s) = c_str s"
  by (rule jstring_of.rep_eq)

lemma lang_param_of_Some:
  "lang_param_of (Some chars) = (if c_str chars = ''auto'' then None else Some chars)"
  by (simp add: lang_param_of_def strcmp_eq_0_iff c_str_def)

lemma lang_param_of_None: "lang_param_of None = None"
  by (simp add: lang_param_of_def)

lemma transcribe_params_fields:
  "print_realtime (transcribe_params E nt l tr) = False"
  "print_progress (transcribe_params E nt l tr) = False"
  "print_timestamps (transcribe_params E nt l tr) = False"
  "print_special (transcribe_params E nt l tr) = False"
  "no_timestamps (transcribe_params E nt l tr) = True"
  "translate (transcribe_params E nt l tr) = (tr = JNI_TRUE)"
  "language (transcribe_params E nt l tr) = l"
  "n_threads (transcribe_params E nt l tr) = nt"
  "offset_ms (transcribe_params E nt l tr) = 0"
  "no_context (transcribe_params E nt l tr) = True"
  "single_segment (transcribe_params E nt l tr) = True"
  "other_fields (transcribe_params E nt l tr) =
     other_fields (whisper_full_default_params E WHISPER_SAMPLING_GREEDY)"
  by (simp_all add: transcribe_params_def)

text \<open>
  One call of \<open>fullTranscribe\<close>, written out: the engine state, the trace and the log
  change, the Java heap and the counts of native buffers do not.
\<close>

lemma fullTranscribe_unfold:
  "fullTranscribe E J ctx nt ad ls tr w =
     (let p = run_params E J nt ls tr;
          r = run_result E J ctx nt ad ls tr w
      in w\<lparr>engine_state :=
              (if fst r \<noteq> 0 then snd r else whisper_print_timings E ctx (snd r)),
            engine_calls :=
              engine_calls w @ [Call_reset_timings ctx,
                 Call_full ctx p (run_samples J ad w) (GetArrayLength ad w)]
                @ (if fst r \<noteq> 0 then [] else [Call_print_timings ctx]),
            logcat :=
              logcat w @
                [Log_line ANDROID_LOG_INFO TAG
                   ''Running whisper_full with %d threads on %d samples, lang=%s, translate=%d''
                   [Arg_d (sint nt), Arg_d (sint (GetArrayLength ad w)),
                    Arg_s (case language p of Some l \<Rightarrow> Some l | None \<Rightarrow> Some ''auto''),
                    Arg_d (if translate p then 1 else 0)]]
                @ (if fst r \<noteq> 0
                   then [Log_line ANDROID_LOG_WARN TAG ''whisper_full failed'' []] else [])\<rparr>)"
proof (cases "utf_chars_ok J"; cases "array_elems_ok J";
       cases "fst (run_result E J ctx nt ad ls tr w) = 0")
qed (simp_all add: fullTranscribe_def run_params_def run_result_def run_samples_def
      run_lang_chars_def bridge_defs transcribe_params_fields Let_def split_def)

lemma initContext_unfold:
  "initContext E J path w =
     (let chars = run_lang_chars J path;
          r = whisper_init_from_file_with_params E chars (whisper_context_default_params E)
                (engine_state w)
      in (fst r,
          w\<lparr>engine_state := snd r,
            engine_calls :=
              engine_calls w @ [Call_init_from_file chars (whisper_context_default_params E)],
            logcat :=
              logcat w @
                [Log_line ANDROID_LOG_INFO TAG ''Loading whisper.cpp model from: %s'' [Arg_s chars],
                 if fst r = NULL_context
                 then Log_line ANDROID_LOG_WARN TAG ''Failed to initialise whisper context'' []
                 else Log_line ANDROID_LOG_INFO TAG ''Whisper context created successfully'' []]\<rparr>))"
  by (cases "utf_chars_ok J")
     (simp_all add: initContext_def run_lang_chars_def bridge_defs Let_def split_def)

lemma toy_world_loaded_eq:
  "toy_world_loaded =
     toy_world\<lparr>engine_state := \<lparr>toy_contexts = [4096], toy_segments = []\<rparr>,
       engine_calls := [Call_init_from_file (Some ''ggml-tiny.bin'') ()],
       logcat :=
         [Log_line ANDROID_LOG_INFO TAG ''Loading whisper.cpp model from: %s''
            [Arg_s (Some ''ggml-tiny.bin'')],
          Log_line ANDROID_LOG_INFO TAG ''Whisper context created successfully'' []]\<rparr>"
  by (simp add: toy_world_loaded_def initContext_unfold run_lang_chars_def toy_defs
      NULL_context_def utf_bytes_jstring_of c_str_def Let_def)

lemma toy_world_after_run_eq:
  "engine_state toy_world_after_run = \<lparr>toy_contexts = [4096], toy_segments = [(''hello'', 0, 3)]\<rparr>"
  by (simp add: toy_world_after_run_def fullTranscribe_unfold run_result_def run_params_def
      run_lang_chars_def run_samples_def transcribe_params_fields bridge_defs lang_param_of_Some
      toy_world_loaded_eq toy_defs utf_bytes_jstring_of c_str_def Let_def)

lemma segment_indices_0: "segment_indices 0 = []"
  by (simp add: segment_indices_def)

lemma segment_indices_1: "segment_indices 1 = [0]"
  by (simp add: segment_indices_def)

text \<open>Every index from 0 below the count is among \<open>segment_indices\<close>.\<close>

lemma mem_segment_indices:
  assumes "0 \<le> sint i" and "sint i < sint n"
  shows "i \<in> set (segment_indices n)"
proof -
  have lt: "nat (sint i) < nat (sint n)"
    using assms by simp
  have eq: "of_nat (nat (sint i)) = i"
    using assms(1) by (simp add: of_nat_nat)
  have "of_nat (nat (sint i)) \<in> set (segment_indices n)"
    unfolding segment_indices_def using lt by (simp del: of_nat_nat)
  with eq show ?thesis by simp
qed

lemma toy_run_xx_fails:
  "run_result toy_engine jvm_ok 4096 4 7 (jstring_of ''xx'') JNI_FALSE toy_world_after_run =
     (- 3, \<lparr>toy_contexts = [4096], toy_segments = []\<rparr>)"
  by (simp add: run_result_def run_params_def run_lang_chars_def transcribe_params_fields
      lang_param_of_Some toy_world_after_run_eq toy_defs utf_bytes_jstring_of c_str_def)

text \<open>The language of the one run that a call of \<open>fullTranscribe\<close> makes.\<close>

lemma fullTranscribe_language:
  "map language (full_params_of (new_calls w
      (fullTranscribe E J ctx nt ad ls tr w))) = [lang_param_of (run_lang_chars J ls)]"
  by (simp add: fullTranscribe_unfold new_calls_def Let_def run_params_def
      transcribe_params_fields)

text \<open>The accessors read the engine state and nothing else of the world.\<close>

lemma observed_segments_engine_state:
  "engine_state w1 = engine_state w2 \<Longrightarrow>
   observed_segments E J ctx w1 = observed_segments E J ctx w2"
  by (simp add: observed_segments_def getTextSegmentCount_def getTextSegment_def
      getTextSegmentT0_def getTextSegmentT1_def)

text \<open>A 32-bit count read as a 64-bit timestamp is not negative.\<close>

lemma sint_ucast_nonneg: "0 \<le> sint (ucast (n :: 32 word) :: 64 word)"
proof -
  have u: "uint (ucast n :: 64 word) = uint n"
    by (rule uint_up_ucast) (simp add: is_up)
  have lo: "- (2 ^ 63) \<le> uint n"
    by (rule order_trans [of _ 0]) simp_all
  have "uint n < 2 ^ 32"
    using uint_lt2p [of n] by simp
  then have hi: "uint n < 2 ^ 63"
    by simp
  have "signed_take_bit (63::nat) (uint n) = uint n"
    using lo hi by (rule signed_take_bit_int_eq_self)
  then have "sint (ucast n :: 64 word) = uint n"
    by (simp add: sint_uint u)
  then show ?thesis by simp
qed

lemma segment_indices_2: "segment_indices 2 = [0, 1]"
  by (simp add: segment_indices_def upt_rec)

text \<open>The engine above keeps the contract \<open>engine_output_well_formed\<close>.\<close>

lemma toy_engine_output_well_formed: "engine_output_well_formed toy_engine"
  unfolding engine_output_well_formed_def
proof (intro conjI allI impI)
  fix ctx p samples n e
  assume ok: "fst (whisper_full toy_engine ctx p samples n e) = 0"
  show "timestamps_well_formed
          (\<lambda>i. whisper_full_get_segment_t0 toy_engine ctx i
                 (snd (whisper_full toy_engine ctx p samples n e)))
          (\<lambda>i. whisper_full_get_segment_t1 toy_engine ctx i
                 (snd (whisper_full toy_engine ctx p samples n e)))
          (whisper_full_n_segments toy_engine ctx
             (snd (whisper_full toy_engine ctx p samples n e)))"
  proof (cases "language p")
    case None
    then show ?thesis
      by (simp add: timestamps_well_formed_def toy_engine_fields toy_full_def
          segment_indices_2)
  next
    case (Some l)
    with ok show ?thesis
      by (cases "toy_known_language l")
         (simp_all add: timestamps_well_formed_def toy_engine_fields toy_full_def
            segment_indices_1 sint_ucast_nonneg)
  qed
qed (simp_all add: toy_engine_fields)

lemma toy_world_after_auto_run_eq:
  "engine_state toy_world_after_auto_run =
     \<lparr>toy_contexts = [4096], toy_segments = [(''hola'', 0, 150), (''mundo'', 150, 300)]\<rparr>"
  by (simp add: toy_world_after_auto_run_def fullTranscribe_unfold run_result_def run_params_def
      run_lang_chars_def run_samples_def transcribe_params_fields bridge_defs lang_param_of_Some
      toy_world_loaded_eq toy_defs utf_bytes_jstring_of c_str_def Let_def)

lemma toy_auto_run_succeeds:
  "fst (run_result toy_engine jvm_ok 4096 4 7 (jstring_of ''auto'') JNI_FALSE toy_world_loaded) = 0"
  by (simp add: run_result_def run_params_def run_lang_chars_def transcribe_params_fields
      lang_param_of_Some toy_world_loaded_eq toy_defs utf_bytes_jstring_of c_str_def)

section \<open>The claims\<close>

subsection \<open>freeContext\<close>

text \<open>
  C6. \<open>freeContext\<close> with a null handle does nothing: the world is the same afterwards, so
  the engine's free routine is not called and no state changes. With a handle that is
  not null it calls \<^verbatim>\<open>whisper_free\<close> on that handle exactly once, writes one line to the
  log and changes nothing else.
\<close>

theorem freeContext_null_noop_else_once:
  "freeContext E NULL_context w = w \<and>
   (context_ptr \<noteq> NULL_context \<longrightarrow>
      freeContext E context_ptr w =
        w\<lparr>engine_state := whisper_free E context_ptr (engine_state w),
          engine_calls := engine_calls w @ [Call_free context_ptr],
          logcat := logcat w @ [Log_line ANDROID_LOG_INFO TAG ''Whisper context freed'' []]\<rparr> \<and>
      freed_by (new_calls w (freeContext E context_ptr w)) = [context_ptr])"
  by (simp add: freeContext_def do_whisper_free_def LOGI_def new_calls_def)

theorem freeContext_null_noop_else_once_witness:
  "(4096 :: jlong) \<noteq> NULL_context \<and>
   freeContext toy_engine NULL_context toy_world_loaded = toy_world_loaded \<and>
   freed_by (new_calls toy_world_loaded (freeContext toy_engine 4096 toy_world_loaded)) = [4096]"
proof -
  have h: "(4096 :: jlong) \<noteq> NULL_context"
    by (simp add: NULL_context_def)
  from freeContext_null_noop_else_once [of toy_engine toy_world_loaded 4096] h
  show ?thesis by blast
qed

subsection \<open>The parameters that fullTranscribe hands to the engine\<close>

text \<open>
  C1. Every call of \<open>fullTranscribe\<close> makes exactly one run of the engine, and the
  parameter struct of that run has \<open>single_segment\<close>, \<open>no_timestamps\<close> and
  \<open>no_context\<close> set, whatever the arguments are. Every field that the bridge does not
  assign, the sampling strategy among them, is the one of the engine's defaults for
  \<^verbatim>\<open>WHISPER_SAMPLING_GREEDY\<close>.
\<close>

theorem fullTranscribe_fixed_profile:
  "full_params_of (new_calls w (fullTranscribe E J context_ptr num_threads audio_data
      language_str translate_arg w)) = [run_params E J num_threads language_str translate_arg] \<and>
   single_segment (run_params E J num_threads language_str translate_arg) \<and>
   no_timestamps (run_params E J num_threads language_str translate_arg) \<and>
   no_context (run_params E J num_threads language_str translate_arg) \<and>
   other_fields (run_params E J num_threads language_str translate_arg) =
     other_fields (whisper_full_default_params E WHISPER_SAMPLING_GREEDY)"
  by (simp add: fullTranscribe_unfold new_calls_def Let_def run_params_def
      transcribe_params_fields)

theorem fullTranscribe_fixed_profile_witness:
  "\<exists>p. full_params_of (new_calls toy_world_loaded
          (fullTranscribe toy_engine jvm_ok 4096 8 7 (jstring_of ''es'') JNI_TRUE toy_world_loaded)) = [p] \<and>
       single_segment p \<and> no_timestamps p \<and> no_context p \<and>
       other_fields p = WHISPER_SAMPLING_GREEDY"
proof -
  have "other_fields (whisper_full_default_params toy_engine WHISPER_SAMPLING_GREEDY) =
          WHISPER_SAMPLING_GREEDY"
    by (simp add: toy_defs)
  with fullTranscribe_fixed_profile [of toy_world_loaded toy_engine jvm_ok 4096 8 7 "jstring_of ''es''" JNI_TRUE]
  show ?thesis by simp
qed

text \<open>
  C7. The \<open>translate\<close> field of the run is set exactly when the \<^verbatim>\<open>jboolean\<close> argument
  is \<open>JNI_TRUE\<close>; for a Kotlin \<^verbatim>\<open>Boolean\<close> \<open>b\<close> the field is \<open>b\<close>, so the run asks for
  translation when \<open>b\<close> is true and for transcription when it is false.
\<close>

theorem fullTranscribe_forwards_translate:
  "map translate (full_params_of (new_calls w (fullTranscribe E J context_ptr num_threads
      audio_data language_str translate_arg w))) = [translate_arg = JNI_TRUE] \<and>
   map translate (full_params_of (new_calls w (fullTranscribe E J context_ptr num_threads
      audio_data language_str (jboolean_of b) w))) = [b]"
  by (simp add: fullTranscribe_unfold new_calls_def Let_def run_params_def
      transcribe_params_fields jboolean_of_def JNI_TRUE_def JNI_FALSE_def)

theorem fullTranscribe_forwards_translate_witness:
  "map translate (full_params_of (new_calls toy_world_loaded
      (fullTranscribe toy_engine jvm_ok 4096 4 7 (jstring_of ''es'') (jboolean_of True) toy_world_loaded))) = [True] \<and>
   map translate (full_params_of (new_calls toy_world_loaded
      (fullTranscribe toy_engine jvm_ok 4096 4 7 (jstring_of ''es'') (jboolean_of False) toy_world_loaded))) = [False]"
  using fullTranscribe_forwards_translate
          [of toy_world_loaded toy_engine jvm_ok 4096 4 7 "jstring_of ''es''" "jboolean_of True" True]
        fullTranscribe_forwards_translate
          [of toy_world_loaded toy_engine jvm_ok 4096 4 7 "jstring_of ''es''" "jboolean_of False" False]
  by blast

subsection \<open>The caller's samples\<close>

text \<open>
  C9. When \<open>fullTranscribe\<close> returns, whether the run succeeded or failed, every float
  array of the Java heap holds what it held before: the native buffer is released with
  \<open>JNI_ABORT\<close>, which copies nothing back. The buffers of the samples and of the
  language string are both released.
\<close>

theorem fullTranscribe_keeps_samples:
  "float_arrays (fullTranscribe E J context_ptr num_threads audio_data language_str translate_arg w)
     = float_arrays w \<and>
   live_array_elems (fullTranscribe E J context_ptr num_threads audio_data language_str
     translate_arg w) = live_array_elems w \<and>
   live_utf_chars (fullTranscribe E J context_ptr num_threads audio_data language_str
     translate_arg w) = live_utf_chars w"
  by (simp add: fullTranscribe_unfold Let_def)

theorem fullTranscribe_keeps_samples_witness:
  "float_arrays (fullTranscribe toy_engine jvm_ok 4096 4 7 (jstring_of ''xx'') JNI_FALSE
     toy_world_after_run) = float_arrays toy_world_after_run \<and>
   float_arrays (fullTranscribe toy_engine jvm_ok 4096 4 7 (jstring_of ''en'') JNI_FALSE
     toy_world_loaded) = float_arrays toy_world_loaded \<and>
   float_arrays (fullTranscribe toy_engine jvm_oom 4096 4 7 (jstring_of ''en'') JNI_FALSE
     toy_world_loaded) = float_arrays toy_world_loaded"
  using fullTranscribe_keeps_samples
          [of toy_engine jvm_ok 4096 4 7 "jstring_of ''xx''" JNI_FALSE toy_world_after_run]
        fullTranscribe_keeps_samples
          [of toy_engine jvm_ok 4096 4 7 "jstring_of ''en''" JNI_FALSE toy_world_loaded]
        fullTranscribe_keeps_samples
          [of toy_engine jvm_oom 4096 4 7 "jstring_of ''en''" JNI_FALSE toy_world_loaded]
  by blast

subsection \<open>The language of a run\<close>

text \<open>
  C3, as the claim states it, fails. The claim: in every call a language string other
  than \<^verbatim>\<open>auto\<close> reaches the engine unchanged. The bridge tests the result of
  \<^verbatim>\<open>GetStringUTFChars\<close> for \<^verbatim>\<open>NULL\<close> first: when the JVM cannot hand over the
  characters, the language of the run is \<^verbatim>\<open>NULL\<close>, here for the language string
  \<^verbatim>\<open>en\<close>.
\<close>

theorem fullTranscribe_language_counterexample:
  "utf_bytes (jstring_of ''en'') \<noteq> ''auto'' \<and>
   map language (full_params_of (new_calls toy_world_loaded
     (fullTranscribe toy_engine jvm_no_utf 4096 4 7 (jstring_of ''en'') JNI_FALSE
        toy_world_loaded))) = [None] \<and>
   map language (full_params_of (new_calls toy_world_loaded
     (fullTranscribe toy_engine jvm_no_utf 4096 4 7 (jstring_of ''en'') JNI_FALSE
        toy_world_loaded))) \<noteq> [Some (utf_bytes (jstring_of ''en''))]"
  by (simp add: fullTranscribe_language run_lang_chars_def lang_param_of_None jvm_fields
      utf_bytes_jstring_of c_str_def)

text \<open>
  C3, amended. When \<^verbatim>\<open>GetStringUTFChars\<close> hands over the characters of the language
  string, the language of the run is \<^verbatim>\<open>NULL\<close> (auto-detection) if the string is
  \<^verbatim>\<open>auto\<close>, and the string itself, unchanged, otherwise.
\<close>

theorem fullTranscribe_language_when_retrieved:
  assumes "utf_chars_ok J"
  shows "map language (full_params_of (new_calls w
           (fullTranscribe E J context_ptr num_threads audio_data language_str translate_arg w))) =
         [if utf_bytes language_str = ''auto'' then None else Some (utf_bytes language_str)]"
  using assms
  by (simp add: fullTranscribe_language run_lang_chars_def lang_param_of_Some c_str_utf_bytes)

theorem fullTranscribe_language_when_retrieved_witness:
  "utf_chars_ok jvm_ok \<and>
   map language (full_params_of (new_calls toy_world_loaded
     (fullTranscribe toy_engine jvm_ok 4096 4 7 (jstring_of ''auto'') JNI_FALSE
        toy_world_loaded))) = [None] \<and>
   map language (full_params_of (new_calls toy_world_loaded
     (fullTranscribe toy_engine jvm_ok 4096 4 7 (jstring_of ''en'') JNI_FALSE
        toy_world_loaded))) = [Some ''en'']"
proof -
  have h: "utf_chars_ok jvm_ok"
    by (simp add: jvm_fields)
  have a: "utf_bytes (jstring_of ''auto'') = ''auto''" and e: "utf_bytes (jstring_of ''en'') = ''en''"
    by (simp_all add: utf_bytes_jstring_of c_str_def)
  from fullTranscribe_language_when_retrieved [OF h, of toy_world_loaded toy_engine 4096 4 7
         "jstring_of ''auto''" JNI_FALSE]
       fullTranscribe_language_when_retrieved [OF h, of toy_world_loaded toy_engine 4096 4 7
         "jstring_of ''en''" JNI_FALSE]
       h a e
  show ?thesis by simp
qed

text \<open>
  C10. The test for the sentinel is \<^verbatim>\<open>strcmp\<close>, an exact comparison of bytes: of the
  C strings behind a pointer only \<^verbatim>\<open>auto\<close> itself selects auto-detection, every other
  one is handed to the engine as it is, \<^verbatim>\<open>Auto\<close> and \<^verbatim>\<open>AUTO\<close> among them. A
  pointer that is \<^verbatim>\<open>NULL\<close>, because the characters could not be retrieved, selects
  auto-detection as well. The run of \<open>fullTranscribe\<close> gets its language this way.
\<close>

theorem auto_sentinel_is_exact:
  "(lang_param_of (Some chars) = None \<longleftrightarrow> c_str chars = ''auto'') \<and>
   (c_str chars \<noteq> ''auto'' \<longrightarrow> lang_param_of (Some chars) = Some chars) \<and>
   lang_param_of None = None \<and>
   lang_param_of (Some ''Auto'') = Some ''Auto'' \<and>
   lang_param_of (Some ''AUTO'') = Some ''AUTO'' \<and>
   map language (full_params_of (new_calls w
     (fullTranscribe E J context_ptr num_threads audio_data language_str translate_arg w))) =
     [lang_param_of (if utf_chars_ok J then Some (utf_bytes language_str) else None)]"
  using fullTranscribe_language [of w E J context_ptr num_threads audio_data language_str translate_arg]
  by (simp add: lang_param_of_Some lang_param_of_None run_lang_chars_def c_str_def)

theorem auto_sentinel_is_exact_witness:
  "c_str ''auto.'' \<noteq> ''auto'' \<and> lang_param_of (Some ''auto.'') = Some ''auto.'' \<and>
   lang_param_of (Some ''auto'') = None \<and>
   map language (full_params_of (new_calls toy_world_loaded
     (fullTranscribe toy_engine jvm_ok 4096 4 7 (jstring_of ''Auto'') JNI_FALSE
        toy_world_loaded))) = [Some ''Auto'']"
proof -
  have h: "c_str ''auto.'' \<noteq> ''auto''" and k: "c_str ''auto'' = ''auto''"
    by (simp_all add: c_str_def)
  have j: "utf_chars_ok jvm_ok" "utf_bytes (jstring_of ''Auto'') = ''Auto''"
    by (simp_all add: jvm_fields utf_bytes_jstring_of c_str_def)
  from auto_sentinel_is_exact [of "''auto.''"] auto_sentinel_is_exact [of "''auto''"]
       auto_sentinel_is_exact [of _ toy_world_loaded toy_engine jvm_ok 4096 4 7 "jstring_of ''Auto''" JNI_FALSE]
       h k j
  show ?thesis by simp
qed

subsection \<open>A run that fails\<close>

text \<open>
  C2, as the claim states it, fails in its last part. The claim: after a run that the
  engine reports as failed, the accessors still observe the segments of the previous
  successful run. The bridge leaves the segments to the engine, and an engine that
  empties its table when a run starts leaves nothing of the previous run: here the first
  run leaves one segment, the second run fails on the language \<^verbatim>\<open>xx\<close>, and the
  accessors observe no segment afterwards.
\<close>

theorem failed_run_counterexample:
  "fst (run_result toy_engine jvm_ok 4096 4 7 (jstring_of ''xx'') JNI_FALSE toy_world_after_run)
     \<noteq> 0 \<and>
   observed_segments toy_engine jvm_ok 4096 toy_world_after_run =
     [(Some (jstring_of ''hello''), 0, 3)] \<and>
   observed_segments toy_engine jvm_ok 4096
     (fullTranscribe toy_engine jvm_ok 4096 4 7 (jstring_of ''xx'') JNI_FALSE toy_world_after_run)
     = []"
  by (simp add: toy_run_xx_fails fullTranscribe_unfold Let_def observed_segments_def
      getTextSegmentCount_def getTextSegment_def getTextSegmentT0_def getTextSegmentT1_def
      NewStringUTF_def toy_world_after_run_eq segment_indices_0 segment_indices_1
      toy_engine_fields jvm_fields)

text \<open>
  C2, amended. When \<^verbatim>\<open>whisper_full\<close> returns a status other than 0, \<open>fullTranscribe\<close>
  returns with the warning \<^verbatim>\<open>whisper_full failed\<close> as the last line of the log, and it
  has made no call into the engine after \<^verbatim>\<open>whisper_full\<close>: it neither clears nor
  changes the segments, the engine state is the one \<^verbatim>\<open>whisper_full\<close> left, and the
  accessors observe the segments of that state.
\<close>

theorem failed_run_leaves_engine_state:
  assumes "fst (run_result E J context_ptr num_threads audio_data language_str translate_arg w) \<noteq> 0"
  shows "engine_state (fullTranscribe E J context_ptr num_threads audio_data language_str
           translate_arg w) =
         snd (run_result E J context_ptr num_threads audio_data language_str translate_arg w) \<and>
         new_calls w (fullTranscribe E J context_ptr num_threads audio_data language_str
           translate_arg w) =
         [Call_reset_timings context_ptr,
          Call_full context_ptr (run_params E J num_threads language_str translate_arg)
            (run_samples J audio_data w) (GetArrayLength audio_data w)] \<and>
         last (logcat (fullTranscribe E J context_ptr num_threads audio_data language_str
           translate_arg w)) = Log_line ANDROID_LOG_WARN TAG ''whisper_full failed'' [] \<and>
         observed_segments E J' context_ptr (fullTranscribe E J context_ptr num_threads audio_data
           language_str translate_arg w) =
         observed_segments E J' context_ptr
           (w\<lparr>engine_state := snd (run_result E J context_ptr num_threads audio_data
                 language_str translate_arg w)\<rparr>)"
proof -
  let ?w' = "fullTranscribe E J context_ptr num_threads audio_data language_str translate_arg w"
  let ?r = "run_result E J context_ptr num_threads audio_data language_str translate_arg w"
  have st: "engine_state ?w' = snd ?r"
    using assms by (simp add: fullTranscribe_unfold Let_def)
  have calls: "new_calls w ?w' =
      [Call_reset_timings context_ptr,
       Call_full context_ptr (run_params E J num_threads language_str translate_arg)
         (run_samples J audio_data w) (GetArrayLength audio_data w)]"
    using assms by (simp add: fullTranscribe_unfold new_calls_def Let_def)
  have lg: "last (logcat ?w') = Log_line ANDROID_LOG_WARN TAG ''whisper_full failed'' []"
    using assms by (simp add: fullTranscribe_unfold Let_def)
  have obs: "observed_segments E J' context_ptr ?w' =
             observed_segments E J' context_ptr (w\<lparr>engine_state := snd ?r\<rparr>)"
    by (rule observed_segments_engine_state) (simp add: st)
  from st calls lg obs show ?thesis by blast
qed

theorem failed_run_leaves_engine_state_witness:
  "fst (run_result toy_engine jvm_ok 4096 4 7 (jstring_of ''xx'') JNI_FALSE toy_world_after_run)
     \<noteq> 0 \<and>
   engine_state (fullTranscribe toy_engine jvm_ok 4096 4 7 (jstring_of ''xx'') JNI_FALSE
     toy_world_after_run) =
   snd (run_result toy_engine jvm_ok 4096 4 7 (jstring_of ''xx'') JNI_FALSE toy_world_after_run) \<and>
   last (logcat (fullTranscribe toy_engine jvm_ok 4096 4 7 (jstring_of ''xx'') JNI_FALSE
     toy_world_after_run)) = Log_line ANDROID_LOG_WARN TAG ''whisper_full failed'' []"
proof -
  have h: "fst (run_result toy_engine jvm_ok 4096 4 7 (jstring_of ''xx'') JNI_FALSE
             toy_world_after_run) \<noteq> 0"
    by (simp add: toy_run_xx_fails)
  from failed_run_leaves_engine_state [OF h] h show ?thesis by blast
qed

subsection \<open>The timestamps of the segments\<close>

text \<open>
  C4. Let the output of the engine be well formed (\<open>engine_output_well_formed\<close>) and let
  \<open>fullTranscribe\<close> return from a run that \<^verbatim>\<open>whisper_full\<close> reported as successful.
  Then \<open>getTextSegmentCount\<close>, \<open>getTextSegmentT0\<close> and \<open>getTextSegmentT1\<close> return the
  count and the timestamps that the engine holds after that run, unchanged, and so they
  are in order: for every index \<open>i\<close> from 0 below the count, the start of segment \<open>i\<close>
  is at most its end, and at most the start of segment \<open>i + 1\<close> when \<open>i + 1\<close> is below
  the count.
\<close>

theorem accessors_keep_timestamp_order:
  assumes "engine_output_well_formed E"
    and "fst (run_result E J context_ptr num_threads audio_data language_str translate_arg w) = 0"
    and "w' = fullTranscribe E J context_ptr num_threads audio_data language_str translate_arg w"
    and "e' = whisper_print_timings E context_ptr
                (snd (run_result E J context_ptr num_threads audio_data language_str
                   translate_arg w))"
    and "0 \<le> sint i" and "sint i < sint (getTextSegmentCount E context_ptr w')"
  shows "getTextSegmentCount E context_ptr w' = whisper_full_n_segments E context_ptr e' \<and>
         getTextSegmentT0 E context_ptr i w' = whisper_full_get_segment_t0 E context_ptr i e' \<and>
         getTextSegmentT1 E context_ptr i w' = whisper_full_get_segment_t1 E context_ptr i e' \<and>
         sint (getTextSegmentT0 E context_ptr i w') \<le> sint (getTextSegmentT1 E context_ptr i w') \<and>
         (sint i + 1 < sint (getTextSegmentCount E context_ptr w') \<longrightarrow>
            sint (getTextSegmentT0 E context_ptr i w') \<le>
            sint (getTextSegmentT0 E context_ptr (i + 1) w'))"
proof -
  let ?r = "run_result E J context_ptr num_threads audio_data language_str translate_arg w"
  let ?e = "snd ?r"
  have st: "engine_state w' = e'"
    using assms(2,3,4) by (simp add: fullTranscribe_unfold Let_def)
  have keep: "whisper_full_n_segments E context_ptr e' = whisper_full_n_segments E context_ptr ?e"
    "\<And>j. whisper_full_get_segment_t0 E context_ptr j e' =
           whisper_full_get_segment_t0 E context_ptr j ?e"
    "\<And>j. whisper_full_get_segment_t1 E context_ptr j e' =
           whisper_full_get_segment_t1 E context_ptr j ?e"
    using assms(1) by (simp_all add: engine_output_well_formed_def assms(4))
  have wf: "timestamps_well_formed
              (\<lambda>j. whisper_full_get_segment_t0 E context_ptr j ?e)
              (\<lambda>j. whisper_full_get_segment_t1 E context_ptr j ?e)
              (whisper_full_n_segments E context_ptr ?e)"
    using assms(1,2) unfolding engine_output_well_formed_def run_result_def by blast
  have mem: "i \<in> set (segment_indices (whisper_full_n_segments E context_ptr ?e))"
    using assms(5,6) by (simp add: mem_segment_indices getTextSegmentCount_def st keep)
  from wf mem
  have ord: "sint (whisper_full_get_segment_t0 E context_ptr i ?e) \<le>
             sint (whisper_full_get_segment_t1 E context_ptr i ?e) \<and>
             (sint i + 1 < sint (whisper_full_n_segments E context_ptr ?e) \<longrightarrow>
                sint (whisper_full_get_segment_t0 E context_ptr i ?e) \<le>
                sint (whisper_full_get_segment_t0 E context_ptr (i + 1) ?e))"
    unfolding timestamps_well_formed_def by blast
  then show ?thesis
    by (simp add: getTextSegmentCount_def getTextSegmentT0_def getTextSegmentT1_def st keep)
qed

theorem accessors_keep_timestamp_order_witness:
  "engine_output_well_formed toy_engine \<and>
   fst (run_result toy_engine jvm_ok 4096 4 7 (jstring_of ''auto'') JNI_FALSE toy_world_loaded) = 0 \<and>
   (0 :: int) \<le> sint (0 :: jint) \<and>
   sint (0 :: jint) < sint (getTextSegmentCount toy_engine 4096 toy_world_after_auto_run) \<and>
   sint (0 + 1 :: jint) < sint (getTextSegmentCount toy_engine 4096 toy_world_after_auto_run) \<and>
   getTextSegmentCount toy_engine 4096 toy_world_after_auto_run = 2 \<and>
   getTextSegmentT0 toy_engine 4096 0 toy_world_after_auto_run = 0 \<and>
   getTextSegmentT1 toy_engine 4096 0 toy_world_after_auto_run = 150 \<and>
   getTextSegmentT0 toy_engine 4096 (0 + 1) toy_world_after_auto_run = 150 \<and>
   sint (getTextSegmentT0 toy_engine 4096 0 toy_world_after_auto_run) \<le>
   sint (getTextSegmentT1 toy_engine 4096 0 toy_world_after_auto_run) \<and>
   sint (getTextSegmentT0 toy_engine 4096 0 toy_world_after_auto_run) \<le>
   sint (getTextSegmentT0 toy_engine 4096 (0 + 1) toy_world_after_auto_run)"
proof -
  have ok: "fst (run_result toy_engine jvm_ok 4096 4 7 (jstring_of ''auto'') JNI_FALSE
                  toy_world_loaded) = 0"
    by (rule toy_auto_run_succeeds)
  have w': "toy_world_after_auto_run =
              fullTranscribe toy_engine jvm_ok 4096 4 7 (jstring_of ''auto'') JNI_FALSE
                toy_world_loaded"
    by (simp only: toy_world_after_auto_run_def)
  have lo: "(0 :: int) \<le> sint (0 :: jint)"
    by simp
  have n: "getTextSegmentCount toy_engine 4096 toy_world_after_auto_run = 2"
    by (simp add: getTextSegmentCount_def toy_world_after_auto_run_eq toy_engine_fields)
  have hi: "sint (0 :: jint) < sint (getTextSegmentCount toy_engine 4096 toy_world_after_auto_run)"
    by (simp add: n)
  have nx: "sint (0 :: jint) + 1 < sint (getTextSegmentCount toy_engine 4096 toy_world_after_auto_run)"
    by (simp add: n)
  have nx': "sint (0 + 1 :: jint) < sint (getTextSegmentCount toy_engine 4096 toy_world_after_auto_run)"
    by (simp add: n)
  have v: "getTextSegmentT0 toy_engine 4096 0 toy_world_after_auto_run = 0"
    "getTextSegmentT1 toy_engine 4096 0 toy_world_after_auto_run = 150"
    "getTextSegmentT0 toy_engine 4096 (0 + 1) toy_world_after_auto_run = 150"
    by (simp_all add: getTextSegmentT0_def getTextSegmentT1_def toy_world_after_auto_run_eq
        toy_engine_fields)
  from accessors_keep_timestamp_order
         [OF toy_engine_output_well_formed ok w' refl lo hi]
       nx toy_engine_output_well_formed ok lo hi nx' n v
  show ?thesis by blast
qed

subsection \<open>initContext\<close>

text \<open>
  C5. The handle that \<open>initContext\<close> returns is the pointer that
  \<^verbatim>\<open>whisper_init_from_file_with_params\<close> returned: it is null exactly when the engine
  did not load the model. On both paths the bridge makes this one call into the engine,
  releases the characters of the path, leaves the Java heap alone and logs the outcome,
  so nothing of its own is left behind when loading fails.
\<close>

theorem initContext_handle_is_engine_result:
  "fst (initContext E J model_path_str w) =
     fst (whisper_init_from_file_with_params E (run_lang_chars J model_path_str)
            (whisper_context_default_params E) (engine_state w)) \<and>
   engine_state (snd (initContext E J model_path_str w)) =
     snd (whisper_init_from_file_with_params E (run_lang_chars J model_path_str)
            (whisper_context_default_params E) (engine_state w)) \<and>
   new_calls w (snd (initContext E J model_path_str w)) =
     [Call_init_from_file (run_lang_chars J model_path_str) (whisper_context_default_params E)] \<and>
   live_utf_chars (snd (initContext E J model_path_str w)) = live_utf_chars w \<and>
   live_array_elems (snd (initContext E J model_path_str w)) = live_array_elems w \<and>
   float_arrays (snd (initContext E J model_path_str w)) = float_arrays w \<and>
   last (logcat (snd (initContext E J model_path_str w))) =
     (if fst (initContext E J model_path_str w) = NULL_context
      then Log_line ANDROID_LOG_WARN TAG ''Failed to initialise whisper context'' []
      else Log_line ANDROID_LOG_INFO TAG ''Whisper context created successfully'' [])"
  by (simp add: initContext_unfold new_calls_def Let_def)

theorem initContext_handle_is_engine_result_witness:
  "fst (initContext toy_engine jvm_ok (jstring_of ''ggml-tiny.bin'') toy_world) = 4096 \<and>
   fst (initContext toy_engine jvm_ok (jstring_of ''notes.txt'') toy_world) = NULL_context \<and>
   engine_state (snd (initContext toy_engine jvm_ok (jstring_of ''notes.txt'') toy_world)) =
     engine_state toy_world \<and>
   live_utf_chars (snd (initContext toy_engine jvm_ok (jstring_of ''notes.txt'') toy_world)) =
     live_utf_chars toy_world"
proof -
  have a: "whisper_init_from_file_with_params toy_engine
             (run_lang_chars jvm_ok (jstring_of ''ggml-tiny.bin''))
             (whisper_context_default_params toy_engine) (engine_state toy_world) =
           (4096, \<lparr>toy_contexts = [4096], toy_segments = []\<rparr>)"
    by (simp add: run_lang_chars_def toy_defs utf_bytes_jstring_of c_str_def)
  have b: "whisper_init_from_file_with_params toy_engine
             (run_lang_chars jvm_ok (jstring_of ''notes.txt''))
             (whisper_context_default_params toy_engine) (engine_state toy_world) =
           (NULL_context, engine_state toy_world)"
    by (simp add: run_lang_chars_def toy_defs utf_bytes_jstring_of c_str_def NULL_context_def)
  from initContext_handle_is_engine_result [of toy_engine jvm_ok "jstring_of ''ggml-tiny.bin''" toy_world]
       initContext_handle_is_engine_result [of toy_engine jvm_ok "jstring_of ''notes.txt''" toy_world]
       a b
  show ?thesis by simp
qed

subsection \<open>getSystemInfo\<close>

text \<open>
  C8, as the claim states it, fails. The claim: \<open>getSystemInfo\<close> returns a string that
  is not empty, on every call. It returns what \<^verbatim>\<open>NewStringUTF\<close> returns, and for a JVM
  that cannot build the string that is \<^verbatim>\<open>NULL\<close>, also when the description of the
  engine is static and not empty.
\<close>

theorem getSystemInfo_counterexample:
  "whisper_print_system_info toy_engine (engine_state toy_world) =
     Some ''NEON = 1 | ARM_FMA = 1 | OPENMP = 1'' \<and>
   getSystemInfo toy_engine jvm_oom toy_world = None"
  by (simp add: getSystemInfo_def NewStringUTF_def toy_engine_fields jvm_fields)

text \<open>
  C8, amended. \<open>getSystemInfo\<close> takes no handle. It returns the description that
  \<^verbatim>\<open>whisper_print_system_info\<close> gives as a new Java string when the JVM can build the
  string, and \<^verbatim>\<open>NULL\<close> when it cannot. For an engine whose description is static and
  not empty (\<open>static_system_info\<close>) and a JVM that can build the string, the result is
  that description in every world, one without a session included: a string that is not
  empty and the same on every call.
\<close>

theorem getSystemInfo_is_engine_description:
  "getSystemInfo E J w =
     (if new_string_ok J
      then map_option jstring_of (whisper_print_system_info E (engine_state w))
      else None) \<and>
   (static_system_info E info \<and> new_string_ok J \<longrightarrow>
      getSystemInfo E J w = Some (jstring_of info) \<and>
      utf_bytes (jstring_of info) \<noteq> [] \<and>
      getSystemInfo E J w' = getSystemInfo E J w)"
  by (simp add: static_system_info_def getSystemInfo_def NewStringUTF_def utf_bytes_jstring_of
      split: option.split)

theorem getSystemInfo_is_engine_description_witness:
  "static_system_info toy_engine ''NEON = 1 | ARM_FMA = 1 | OPENMP = 1'' \<and>
   new_string_ok jvm_ok \<and>
   getSystemInfo toy_engine jvm_ok toy_world =
     Some (jstring_of ''NEON = 1 | ARM_FMA = 1 | OPENMP = 1'') \<and>
   utf_bytes (jstring_of ''NEON = 1 | ARM_FMA = 1 | OPENMP = 1'') \<noteq> [] \<and>
   getSystemInfo toy_engine jvm_ok toy_world_after_run = getSystemInfo toy_engine jvm_ok toy_world"
proof -
  have a: "static_system_info toy_engine ''NEON = 1 | ARM_FMA = 1 | OPENMP = 1''"
    by (simp add: static_system_info_def toy_engine_fields c_str_def)
  have b: "new_string_ok jvm_ok"
    by (simp add: jvm_fields)
  from getSystemInfo_is_engine_description
         [of toy_engine jvm_ok toy_world "''NEON = 1 | ARM_FMA = 1 | OPENMP = 1''"
            toy_world_after_run] a b
  show ?thesis by blast
qed

end
